theory Spec2Isabelle
  imports Complex_Main
begin

section \<open>Exceptions and results\<close>

text \<open>
  The notebooks are Python cells.  Exceptions are values: a statement returns
  \<open>Inl e\<close> when it raises \<open>e\<close> and \<open>Inr v\<close> when it completes with \<open>v\<close>.
  \<open>ModuleNotFoundError\<close> is Python's subclass of \<open>ImportError\<close>, so a handler
  for \<open>ImportError\<close> catches both.
\<close>

datatype exn =
    ImportError
  | ModuleNotFoundError
  | FileNotFoundError
  | FileExistsError
  | NotADirectoryError
  | ValueError
  | IndexError
  | NameError
  | OtherError string


definition and_then :: "exn + 'a \<Rightarrow> ('a \<Rightarrow> exn + 'b) \<Rightarrow> exn + 'b" where
  "and_then r f = (case r of Inl e \<Rightarrow> Inl e | Inr v \<Rightarrow> f v)"

text \<open>
  A sequence of statements without a handler: the first statement that raises ends
  the sequence with that exception.
\<close>

fun run_cell :: "('s \<Rightarrow> exn + 's) list \<Rightarrow> 's \<Rightarrow> exn + 's" where
  "run_cell [] s = Inr s"
| "run_cell (stmt # stmts) s = and_then (stmt s) (run_cell stmts)"





section \<open>The filesystem and the outside world\<close>

text \<open>
  The notebooks only use paths relative to the working directory.  A path is its
  list of components; the filesystem maps absolute paths to directories and files
  (a file carries an identifier of its content).  The working directory belongs to
  the Python process, not to the filesystem.
\<close>

type_synonym path = "string list"

datatype node = Dir | File string

type_synonym filesystem = "path \<Rightarrow> node option"

record world =
  files :: filesystem
  cwd :: path

definition resolve :: "world \<Rightarrow> path \<Rightarrow> path" where
  "resolve w p = cwd w @ p"

definition os_path_exists :: "path \<Rightarrow> world \<Rightarrow> bool" where
  "os_path_exists p w = (files w (resolve w p) \<noteq> None)"

definition os_path_join :: "string \<Rightarrow> string \<Rightarrow> path" where
  "os_path_join a b = [a, b]"

definition is_directory :: "filesystem \<Rightarrow> path \<Rightarrow> bool" where
  "is_directory fs p = (p = [] \<or> fs p = Some Dir)"

definition os_mkdir :: "path \<Rightarrow> world \<Rightarrow> exn + world" where
  "os_mkdir p w =
     (let target = resolve w p in
      if files w target \<noteq> None then Inl FileExistsError
      else if is_directory (files w) (butlast target)
        then Inr (w\<lparr>files := (files w)(target \<mapsto> Dir)\<rparr>)
      else if files w (butlast target) = None then Inl FileNotFoundError
      else Inl NotADirectoryError)"

definition os_chdir :: "path \<Rightarrow> world \<Rightarrow> exn + world" where
  "os_chdir p w =
     (let target = resolve w p in
      if is_directory (files w) target then Inr (w\<lparr>cwd := target\<rparr>)
      else if files w target = None then Inl FileNotFoundError
      else Inl NotADirectoryError)"

text \<open>
  What the notebooks call outside Python is a parameter of the model, since none of
  it is code of the repository:
  \<^item> \<open>git_clone url d fs\<close>: the shell command \<^verbatim>\<open>!git clone url\<close> run in
    directory \<open>d\<close>; a shell escape never raises in Python and cannot change the
    working directory of the notebook's process;
  \<^item> \<open>pip_install pkg fs\<close>: the magic \<^verbatim>\<open>%pip install pkg\<close>, a subprocess too;
  \<^item> \<open>import_module m w\<close>: the statement \<^verbatim>\<open>import m\<close>, \<open>None\<close> when it
    succeeds and \<open>Some e\<close> when it raises \<open>e\<close>;
  \<^item> \<open>download_gdrive file_id dest fs\<close>: \<^verbatim>\<open>robustbench.utils.download_gdrive\<close>
    called with the absolute destination \<open>dest\<close>; it may raise.
\<close>

record externals =
  git_clone :: "string \<Rightarrow> path \<Rightarrow> filesystem \<Rightarrow> filesystem"
  pip_install :: "string \<Rightarrow> filesystem \<Rightarrow> filesystem"
  import_module :: "string \<Rightarrow> world \<Rightarrow> exn option"
  download_gdrive :: "string \<Rightarrow> path \<Rightarrow> filesystem \<Rightarrow> exn + filesystem"

definition shell_git_clone :: "externals \<Rightarrow> string \<Rightarrow> world \<Rightarrow> world" where
  "shell_git_clone ext url w = w\<lparr>files := git_clone ext url (cwd w) (files w)\<rparr>"


definition call_download_gdrive :: "externals \<Rightarrow> string \<Rightarrow> path \<Rightarrow> world \<Rightarrow> exn + world" where
  "call_download_gdrive ext file_id p w =
     (case download_gdrive ext file_id (resolve w p) (files w) of
        Inl e \<Rightarrow> Inl e
      | Inr fs \<Rightarrow> Inr (w\<lparr>files := fs\<rparr>))"

section \<open>Environment bootstrap\<close>




text \<open>
  The second half of the first cell of notebook 04:
  \<^verbatim>\<open>
  if not os.path.exists("models"):
      if not os.path.exists("unica_mlsec_labs"):
          !git clone https://github.com/maurapintor/unica_mlsec_labs.git
      os.chdir("unica_mlsec_labs")
  \<close>
\<close>

definition repo_url :: string where
  "repo_url = ''https://github.com/maurapintor/unica_mlsec_labs.git''"

definition clone_labs :: "externals \<Rightarrow> world \<Rightarrow> exn + world" where
  "clone_labs ext w =
     (if \<not> os_path_exists [''models''] w then
        os_chdir [''unica_mlsec_labs'']
          (if \<not> os_path_exists [''unica_mlsec_labs''] w
           then shell_git_clone ext repo_url w else w)
      else Inr w)"





section \<open>Model loading\<close>

text \<open>
  The filesystem part of the cells of notebook 04 that load pretrained weights.
  What follows it in each cell (building the network, \<^verbatim>\<open>torch.load\<close>,
  \<^verbatim>\<open>load_state_dict\<close>, wrapping the classifier) reads the file and writes nothing.
  \<^verbatim>\<open>
  if not os.path.exists("pretrained"):
      os.mkdir("pretrained")
  MODEL_ID = '1Af_owmMvg1LxjITLE1gFUmPx5idogeTP'
  gamma = 0.1
  filepath = os.path.join('pretrained', f'kwta_spresnet18_{gamma}_cifar_adv.pth')
  if not os.path.exists(filepath):
      download_gdrive(MODEL_ID, filepath)
  \<close>
\<close>

definition ensure_pretrained_dir :: "world \<Rightarrow> exn + world" where
  "ensure_pretrained_dir w =
     (if \<not> os_path_exists [''pretrained''] w then os_mkdir [''pretrained''] w else Inr w)"

definition fetch_if_absent :: "externals \<Rightarrow> string \<Rightarrow> path \<Rightarrow> world \<Rightarrow> exn + world" where
  "fetch_if_absent ext file_id p w =
     (if \<not> os_path_exists p w then call_download_gdrive ext file_id p w else Inr w)"

definition kwta_filepath :: path where
  "kwta_filepath = os_path_join ''pretrained'' ''kwta_spresnet18_0.1_cifar_adv.pth''"

definition load_kwta_weights :: "externals \<Rightarrow> world \<Rightarrow> exn + world" where
  "load_kwta_weights ext =
     run_cell
       [ensure_pretrained_dir,
        fetch_if_absent ext ''1Af_owmMvg1LxjITLE1gFUmPx5idogeTP'' kwta_filepath]"

text \<open>The distilled network and its teacher: no \<^verbatim>\<open>os.mkdir\<close> in these cells.\<close>

definition load_distilled_weights :: "externals \<Rightarrow> world \<Rightarrow> exn + world" where
  "load_distilled_weights ext =
     fetch_if_absent ext ''1s7Kfa2Bs5nY2zLd6dVAxUqNbCNQhPYxs''
       (os_path_join ''pretrained'' ''mnist_distilled.pt'')"

definition load_teacher_weights :: "externals \<Rightarrow> world \<Rightarrow> exn + world" where
  "load_teacher_weights ext =
     fetch_if_absent ext ''1qmjepc4k_o4BIqCvUJgwg-K19CaovOrQ''
       (os_path_join ''pretrained'' ''mnist_teacher.pt'')"

subsection \<open>What running a step again rests on\<close>

text \<open>
  Two properties of the outside world.  A download that completes leaves a file at
  its destination and removes nothing.  A clone into a directory that has no
  \<^verbatim>\<open>unica_mlsec_labs\<close> entry delivers the repository, which has a
  \<^verbatim>\<open>models\<close> directory.
\<close>

definition download_leaves_file :: "externals \<Rightarrow> bool" where
  "download_leaves_file ext =
     (\<forall>file_id dest fs fs'. download_gdrive ext file_id dest fs = Inr fs'
        \<longrightarrow> fs' dest \<noteq> None \<and> (\<forall>q. fs q \<noteq> None \<longrightarrow> fs' q \<noteq> None))"

definition clone_delivers_models :: "externals \<Rightarrow> bool" where
  "clone_delivers_models ext =
     (\<forall>d fs. fs (d @ [''unica_mlsec_labs'']) = None
        \<longrightarrow> git_clone ext repo_url d fs (d @ [''unica_mlsec_labs'', ''models'']) \<noteq> None)"

section \<open>Numbers\<close>

text \<open>
  Arrays hold double-precision numbers.  The model computes with the reals they
  denote and rounds the exact result of every division, multiplication, addition
  and subtraction with \<open>rnd\<close>, a parameter of every definition that computes.
  Floating-point arithmetic rounds correctly: rounding is monotone and leaves 0
  and 1, which are representable, as they are.  \<open>exact\<close> is arithmetic without
  rounding error, as on operands whose results are representable.  Minimum,
  maximum, comparison and negation do not round.  A score can be \<open>NaN\<close>.
\<close>

definition rounds :: "(real \<Rightarrow> real) \<Rightarrow> bool" where
  "rounds rnd = (mono rnd \<and> rnd 0 = 0 \<and> rnd 1 = 1)"

definition exact :: "real \<Rightarrow> real" where
  "exact v = v"

datatype pyfloat = NaN | Finite real

section \<open>Datasets and arrays\<close>

text \<open>
  A dataset of the toolkit has a feature matrix \<open>X\<close>, one row per sample, a label
  vector \<open>Y\<close> and an optional header (for the image datasets: the size of the
  images and the original labels).
\<close>

type_synonym carray = "real list list"

record dataset_header =
  img_w :: nat
  img_h :: nat
  y_original :: "int list"

record dataset =
  X :: carray
  Y :: "int list"
  header :: "dataset_header option"

definition num_samples :: "dataset \<Rightarrow> nat" where
  "num_samples ds = length (X ds)"

text \<open>
  The slice \<^verbatim>\<open>a[:n, :]\<close> (and \<^verbatim>\<open>y[:n]\<close> of a vector) keeps the first \<open>n\<close> rows;
  the toolkit raises \<open>IndexError\<close> when the array has fewer than \<open>n\<close>.  Slicing
  a dataset slices \<open>X\<close> and \<open>Y\<close> alike and makes a new dataset.
\<close>

definition rows_upto :: "nat \<Rightarrow> 'a list \<Rightarrow> exn + 'a list" where
  "rows_upto n xs = (if n \<le> length xs then Inr (take n xs) else Inl IndexError)"

definition first_samples :: "nat \<Rightarrow> dataset \<Rightarrow> exn + dataset" where
  "first_samples n ds =
     and_then (rows_upto n (X ds)) (\<lambda>x.
     and_then (rows_upto n (Y ds)) (\<lambda>y. Inr (ds\<lparr>X := x, Y := y\<rparr>)))"

text \<open>\<^verbatim>\<open>x /= 255\<close> divides every entry of the matrix.\<close>

definition divide_by :: "(real \<Rightarrow> real) \<Rightarrow> real \<Rightarrow> carray \<Rightarrow> carray" where
  "divide_by rnd c a = map (map (\<lambda>v. rnd (v / c))) a"

text \<open>
  \<^verbatim>\<open>a.min()\<close> and \<^verbatim>\<open>a.max()\<close> reduce over all entries of the array and raise
  \<open>ValueError\<close> on an array without entries.
\<close>

definition carray_min :: "carray \<Rightarrow> exn + real" where
  "carray_min a = (case concat a of [] \<Rightarrow> Inl ValueError | v # vs \<Rightarrow> Inr (fold min vs v))"

definition carray_max :: "carray \<Rightarrow> exn + real" where
  "carray_max a = (case concat a of [] \<Rightarrow> Inl ValueError | v # vs \<Rightarrow> Inr (fold max vs v))"

definition in_unit_interval :: "carray \<Rightarrow> bool" where
  "in_unit_interval a = list_all (list_all (\<lambda>v. 0 \<le> v \<and> v \<le> 1)) a"

definition in_byte_range :: "carray \<Rightarrow> bool" where
  "in_byte_range a = list_all (list_all (\<lambda>v. 0 \<le> v \<and> v \<le> 255)) a"

subsection \<open>Min-max scaling\<close>

text \<open>
  Modelled from the spec: \<^verbatim>\<open>CNormalizerMinMax\<close> is the toolkit's min-max scaling to
  the range \<open>[0, 1]\<close>, not code of the repository.  Fitting records the minimum and
  the maximum of every feature (column) of the matrix it is given; transforming
  maps an entry \<open>v\<close> of a feature to \<open>v * m + q\<close> with \<open>m = 1 / (max - min)\<close> and
  \<open>q = - min * m\<close>, where \<open>m = 1\<close> for a feature whose maximum equals its
  minimum.  Fitting an array without rows and transforming an array of another
  width raise \<open>ValueError\<close>.
\<close>

record normalizer =
  feature_min :: "real list"
  feature_max :: "real list"

fun fit :: "carray \<Rightarrow> exn + normalizer" where
  "fit [] = Inl ValueError"
| "fit (r # rs) =
     Inr \<lparr>feature_min = fold (map2 min) rs r, feature_max = fold (map2 max) rs r\<rparr>"

definition slope :: "(real \<Rightarrow> real) \<Rightarrow> real \<Rightarrow> real \<Rightarrow> real" where
  "slope rnd lo hi = (let r = rnd (hi - lo) in if r \<noteq> 0 then rnd (1 / r) else 1)"

definition scale :: "(real \<Rightarrow> real) \<Rightarrow> real \<Rightarrow> real \<Rightarrow> real \<Rightarrow> real" where
  "scale rnd lo hi v =
     (let m = slope rnd lo hi; q = rnd (- lo * m) in rnd (rnd (v * m) + q))"

definition transform_row :: "(real \<Rightarrow> real) \<Rightarrow> normalizer \<Rightarrow> real list \<Rightarrow> real list" where
  "transform_row rnd nz row =
     map (\<lambda>(v, lo, hi). scale rnd lo hi v) (zip row (zip (feature_min nz) (feature_max nz)))"

definition transform :: "(real \<Rightarrow> real) \<Rightarrow> normalizer \<Rightarrow> carray \<Rightarrow> exn + carray" where
  "transform rnd nz a =
     (if list_all (\<lambda>row. length row = length (feature_min nz)) a
      then Inr (map (transform_row rnd nz) a) else Inl ValueError)"

definition fit_transform :: "(real \<Rightarrow> real) \<Rightarrow> carray \<Rightarrow> exn + normalizer \<times> carray" where
  "fit_transform rnd a =
     and_then (fit a) (\<lambda>nz. and_then (transform rnd nz a) (\<lambda>a'. Inr (nz, a')))"

section \<open>The notebook's objects\<close>

text \<open>
  Datasets are objects: a name of the notebook refers to an object, two names can
  refer to the same one, and assigning to an attribute changes the object for
  every name that refers to it.  The notebook's state holds the dataset objects by
  reference, the names bound to them, the next free reference and the normaliser
  \<^verbatim>\<open>nmz\<close> (\<open>None\<close> until it is fitted).
\<close>

type_synonym ref = nat

record notebook =
  objects :: "ref \<Rightarrow> dataset option"
  variables :: "string \<Rightarrow> ref option"
  next_ref :: ref
  nmz :: "normalizer option"

definition deref :: "string \<Rightarrow> notebook \<Rightarrow> exn + ref \<times> dataset" where
  "deref name nb =
     (case variables nb name of
        None \<Rightarrow> Inl NameError
      | Some r \<Rightarrow> (case objects nb r of None \<Rightarrow> Inl NameError | Some ds \<Rightarrow> Inr (r, ds)))"

definition lookup :: "string \<Rightarrow> notebook \<Rightarrow> dataset option" where
  "lookup name nb = (case variables nb name of None \<Rightarrow> None | Some r \<Rightarrow> objects nb r)"

text \<open>
  \<^verbatim>\<open>name.X = f(name.X)\<close>: the right-hand side is computed from the \<open>X\<close> of the
  object and stored in the \<open>X\<close> attribute of the same object.
\<close>

definition assign_X :: "string \<Rightarrow> (carray \<Rightarrow> exn + carray) \<Rightarrow> notebook \<Rightarrow> exn + notebook" where
  "assign_X name f nb =
     and_then (deref name nb) (\<lambda>(r, ds).
     and_then (f (X ds)) (\<lambda>x. Inr (nb\<lparr>objects := (objects nb)(r \<mapsto> ds\<lparr>X := x\<rparr>)\<rparr>)))"

text \<open>\<^verbatim>\<open>name.X /= 255\<close>\<close>

definition idiv_255 :: "(real \<Rightarrow> real) \<Rightarrow> string \<Rightarrow> notebook \<Rightarrow> exn + notebook" where
  "idiv_255 rnd name = assign_X name (\<lambda>x. Inr (divide_by rnd 255 x))"

text \<open>\<^verbatim>\<open>name = name[:n, :]\<close>: the slice is a new object, and the name is bound to it.\<close>

definition rebind_first_samples :: "string \<Rightarrow> nat \<Rightarrow> notebook \<Rightarrow> exn + notebook" where
  "rebind_first_samples name n nb =
     and_then (deref name nb) (\<lambda>(r, ds).
     and_then (first_samples n ds) (\<lambda>ds'.
       Inr (nb\<lparr>objects := (objects nb)(next_ref nb \<mapsto> ds'),
               variables := (variables nb)(name \<mapsto> next_ref nb),
               next_ref := Suc (next_ref nb)\<rparr>)))"

text \<open>
  \<^verbatim>\<open>name.X = nmz.fit_transform(name.X)\<close> fits the normaliser and stores the
  transformed matrix; \<^verbatim>\<open>name.X = nmz.transform(name.X)\<close> needs a fitted
  normaliser.
\<close>

definition fit_transform_X :: "(real \<Rightarrow> real) \<Rightarrow> string \<Rightarrow> notebook \<Rightarrow> exn + notebook" where
  "fit_transform_X rnd name nb =
     and_then (deref name nb) (\<lambda>(r, ds).
     and_then (fit_transform rnd (X ds)) (\<lambda>(nz, x).
       Inr (nb\<lparr>objects := (objects nb)(r \<mapsto> ds\<lparr>X := x\<rparr>), nmz := Some nz\<rparr>)))"

definition transform_X :: "(real \<Rightarrow> real) \<Rightarrow> string \<Rightarrow> notebook \<Rightarrow> exn + notebook" where
  "transform_X rnd name nb =
     assign_X name
       (\<lambda>x. case nmz nb of
               None \<Rightarrow> Inl (OtherError ''NotFittedError'')
             | Some nz \<Rightarrow> transform rnd nz x) nb"

text \<open>
  The data cells of notebook 04 (CIFAR10, then MNIST), after the loader has bound
  \<^verbatim>\<open>ts\<close>:
  \<^verbatim>\<open>
  ts = ts[:100, :]
  ts.X /= 255
  \<close>
  and of notebook 06, where the loader is asked for the number of samples:
  \<^verbatim>\<open>
  tr.X /= 255
  ts.X /= 255
  \<close>
\<close>

definition data_cell_04 :: "(real \<Rightarrow> real) \<Rightarrow> notebook \<Rightarrow> exn + notebook" where
  "data_cell_04 rnd = run_cell [rebind_first_samples ''ts'' 100, idiv_255 rnd ''ts'']"

definition data_cell_06 :: "(real \<Rightarrow> real) \<Rightarrow> notebook \<Rightarrow> exn + notebook" where
  "data_cell_06 rnd = run_cell [idiv_255 rnd ''tr'', idiv_255 rnd ''ts'']"

text \<open>
  The normalisation of the data cell of the poisoning notebook, after the splitter
  has bound the three datasets:
  \<^verbatim>\<open>
  nmz = CNormalizerMinMax()
  tr.X = nmz.fit_transform(tr.X)
  val.X = nmz.transform(val.X)
  ts.X = nmz.transform(ts.X)
  \<close>
  Before the security evaluation the same notebook fits the normaliser again, on
  the test set: \<^verbatim>\<open>ts.X = nmz.fit_transform(ts.X)\<close>.
\<close>

definition normalize_cell :: "(real \<Rightarrow> real) \<Rightarrow> notebook \<Rightarrow> exn + notebook" where
  "normalize_cell rnd =
     run_cell
       [\<lambda>nb. Inr (nb\<lparr>nmz := None\<rparr>),
        fit_transform_X rnd ''tr'',
        transform_X rnd ''val'',
        transform_X rnd ''ts'']"

definition refit_cell :: "(real \<Rightarrow> real) \<Rightarrow> notebook \<Rightarrow> exn + notebook" where
  "refit_cell rnd = fit_transform_X rnd ''ts''"

text \<open>
  What a statement may change when it changes only \<open>X\<close> attributes in place: the
  names refer to the same objects as before, no object appears or disappears, and
  every object keeps its labels, its header and its number of samples.
\<close>

definition same_but_X :: "dataset \<Rightarrow> dataset \<Rightarrow> bool" where
  "same_but_X ds ds' =
     (Y ds' = Y ds \<and> header ds' = header ds \<and> num_samples ds' = num_samples ds)"

definition only_X_changed :: "notebook \<Rightarrow> notebook \<Rightarrow> bool" where
  "only_X_changed nb nb' =
     (variables nb' = variables nb \<and> next_ref nb' = next_ref nb
      \<and> (\<forall>r. case objects nb r of
                None \<Rightarrow> objects nb' r = None
              | Some ds \<Rightarrow> (case objects nb' r of
                             None \<Rightarrow> False
                           | Some ds' \<Rightarrow> same_but_X ds ds')))"

text \<open>The rows of the new matrix are the rows of the old one, each mapped by \<open>g\<close>.\<close>

definition rows_mapped :: "(real list \<Rightarrow> real list) \<Rightarrow> string \<Rightarrow> notebook \<Rightarrow> notebook \<Rightarrow> bool" where
  "rows_mapped g name nb nb' =
     (case lookup name nb of
        None \<Rightarrow> False
      | Some ds \<Rightarrow> (case lookup name nb' of
                     None \<Rightarrow> False
                   | Some ds' \<Rightarrow> X ds' = map g (X ds)))"

subsection \<open>Bounds of the attack space\<close>

text \<open>
  \<^verbatim>\<open>lb, ub = val.X.min(), val.X.max()\<close> and \<^verbatim>\<open>box = CConstraintBox(lb=lb, ub=ub)\<close>.
  A point satisfies the box constraint when each of its features lies between the
  two bounds.  The blobs of the poisoning notebook have \<^verbatim>\<open>n_features = 2\<close>.
\<close>

definition n_features :: nat where
  "n_features = 2"

definition attack_bounds :: "dataset \<Rightarrow> exn + real \<times> real" where
  "attack_bounds val =
     and_then (carray_min (X val)) (\<lambda>lb. and_then (carray_max (X val)) (\<lambda>ub. Inr (lb, ub)))"

record constraint_box =
  lb :: real
  ub :: real

definition CConstraintBox :: "real \<Rightarrow> real \<Rightarrow> constraint_box" where
  "CConstraintBox l u = \<lparr>lb = l, ub = u\<rparr>"

definition is_satisfied :: "constraint_box \<Rightarrow> real list \<Rightarrow> bool" where
  "is_satisfied box x = list_all (\<lambda>v. lb box \<le> v \<and> v \<le> ub box) x"

section \<open>Evaluating an attack\<close>

text \<open>
  \<^verbatim>\<open>CMetricAccuracy().performance_score(y_true, y_pred)\<close> is the share of positions
  where the two label vectors agree: \<open>NaN\<close> for empty vectors, and vectors of
  different lengths raise \<open>ValueError\<close>.
\<close>

definition performance_score :: "(real \<Rightarrow> real) \<Rightarrow> int list \<Rightarrow> int list \<Rightarrow> exn + pyfloat" where
  "performance_score rnd y_true y_pred =
     (if length y_true \<noteq> length y_pred then Inl ValueError
      else if y_true = [] then Inr NaN
      else Inr (Finite (rnd (real (length (filter (\<lambda>(t, p). t = p) (zip y_true y_pred)))
                             / real (length y_true)))))"

text \<open>
  The evaluation cells of notebook 04.  The classifier's \<^verbatim>\<open>predict\<close> and the
  attack's \<^verbatim>\<open>run\<close> are the toolkit's and are parameters here; \<^verbatim>\<open>run\<close> is
  unpacked into four values.
  \<^verbatim>\<open>
  samples, labels = ts.X[:idx, :], ts.Y[:idx]
  y_pred = clf.predict(samples)
  y_pred_adv, _, _, _ = attack.run(samples, labels)
  accuracy = metric.performance_score(y_true=labels, y_pred=y_pred)
  robust_accuracy = metric.performance_score(y_true=labels, y_pred=y_pred_adv)
  \<close>
\<close>

type_synonym attack_result = "int list \<times> carray \<times> dataset \<times> real"

definition evaluate_attack ::
  "(real \<Rightarrow> real) \<Rightarrow> (carray \<Rightarrow> exn + int list) \<Rightarrow>
   (carray \<Rightarrow> int list \<Rightarrow> exn + attack_result) \<Rightarrow>
   nat \<Rightarrow> dataset \<Rightarrow> exn + pyfloat \<times> pyfloat" where
  "evaluate_attack rnd predict run idx ts =
     and_then (rows_upto idx (X ts)) (\<lambda>samples.
     and_then (rows_upto idx (Y ts)) (\<lambda>labels.
     and_then (predict samples) (\<lambda>y_pred.
     and_then (run samples labels) (\<lambda>(y_pred_adv, scores, adv_ds, f_obj).
     and_then (performance_score rnd labels y_pred) (\<lambda>accuracy.
     and_then (performance_score rnd labels y_pred_adv) (\<lambda>robust_accuracy.
       Inr (accuracy, robust_accuracy)))))))"

section \<open>Concrete inputs\<close>

text \<open>
  Inputs on which the cells are run below.  In \<open>example_externals\<close> a module can
  be imported once \<^verbatim>\<open>pip\<close> has installed it, a clone delivers the repository
  with its \<^verbatim>\<open>models\<close> directory unless the target directory exists already, and
  a download writes its file when the directory of the destination exists.  In
  \<open>broken_externals\<close> every import raises an exception that is not an
  \<open>ImportError\<close>.
\<close>

definition site_packages :: "string \<Rightarrow> path" where
  "site_packages pkg = [''usr'', ''lib'', ''site-packages'', pkg]"

definition example_externals :: externals where
  "example_externals =
     \<lparr>git_clone = (\<lambda>url d fs.
        if fs (d @ [''unica_mlsec_labs'']) = None
        then fs(d @ [''unica_mlsec_labs''] \<mapsto> Dir, d @ [''unica_mlsec_labs'', ''models''] \<mapsto> Dir)
        else fs),
      pip_install = (\<lambda>pkg fs. fs(site_packages pkg \<mapsto> Dir)),
      import_module = (\<lambda>m w.
        if files w (site_packages m) = None then Some ModuleNotFoundError else None),
      download_gdrive = (\<lambda>file_id dest fs.
        if is_directory fs (butlast dest) then Inr (fs(dest \<mapsto> File file_id))
        else Inl FileNotFoundError)\<rparr>"


definition fresh_world :: world where
  "fresh_world = \<lparr>files = [[''content''] \<mapsto> Dir], cwd = [''content'']\<rparr>"

text \<open>
  A classifier that thresholds the sum of the features, an attack whose
  optimisation does not move (it returns the clean predictions), an attack that
  raises, and a test set of five samples.
\<close>

definition example_predict :: "carray \<Rightarrow> exn + int list" where
  "example_predict samples = Inr (map (\<lambda>row. if sum_list row < 1 then 0 else 1) samples)"

definition stuck_run :: "carray \<Rightarrow> int list \<Rightarrow> exn + attack_result" where
  "stuck_run samples labels =
     and_then (example_predict samples)
       (\<lambda>y. Inr (y, [], \<lparr>X = samples, Y = y, header = None\<rparr>, 0))"


definition example_ts :: dataset where
  "example_ts =
     \<lparr>X = [[0, 0], [1, 1], [0, 1 / 2], [1, 0], [2, 2]], Y = [0, 1, 1, 1, 0], header = None\<rparr>"

text \<open>
  A split of two-feature blobs whose validation sample and test sample lie outside
  the range of the training samples, in a notebook that has bound the three names,
  and the notebook that the normalisation reaches from it.
\<close>

definition blob_tr :: dataset where
  "blob_tr = \<lparr>X = [[-1, -1], [1, 1]], Y = [0, 1], header = None\<rparr>"

definition blob_val :: dataset where
  "blob_val = \<lparr>X = [[2, 0]], Y = [1], header = None\<rparr>"

definition blob_ts :: dataset where
  "blob_ts = \<lparr>X = [[-2, 0]], Y = [0], header = None\<rparr>"

definition blob_notebook :: notebook where
  "blob_notebook =
     \<lparr>objects = [0 \<mapsto> blob_tr, 1 \<mapsto> blob_val, 2 \<mapsto> blob_ts],
      variables = [''tr'' \<mapsto> 0, ''val'' \<mapsto> 1, ''ts'' \<mapsto> 2],
      next_ref = 3,
      nmz = None\<rparr>"

definition blob_normalizer :: normalizer where
  "blob_normalizer = \<lparr>feature_min = [-1, -1], feature_max = [1, 1]\<rparr>"

definition normalized_notebook :: notebook where
  "normalized_notebook =
     \<lparr>objects = [0 \<mapsto> blob_tr\<lparr>X := [[0, 0], [1, 1]]\<rparr>,
                 1 \<mapsto> blob_val\<lparr>X := [[3 / 2, 1 / 2]]\<rparr>,
                 2 \<mapsto> blob_ts\<lparr>X := [[- (1 / 2), 1 / 2]]\<rparr>],
      variables = [''tr'' \<mapsto> 0, ''val'' \<mapsto> 1, ''ts'' \<mapsto> 2],
      next_ref = 3,
      nmz = Some blob_normalizer\<rparr>"

text \<open>
  Image datasets with pixel values between 0 and 255 and a header, in a notebook
  where \<^verbatim>\<open>ts\<close> has 120 samples, \<^verbatim>\<open>tr\<close> has 3 and a second name refers to
  the object of \<^verbatim>\<open>ts\<close>.
\<close>

definition pixel_ds :: "nat \<Rightarrow> dataset" where
  "pixel_ds n =
     \<lparr>X = map (\<lambda>i. [real i, 255 - real i]) [0..<n],
      Y = map (\<lambda>i. int (i mod 10)) [0..<n],
      header = Some \<lparr>img_w = 2, img_h = 1, y_original = [0, 1, 2, 3, 4, 5, 6, 7, 8, 9]\<rparr>\<rparr>"

definition image_notebook :: notebook where
  "image_notebook =
     \<lparr>objects = [0 \<mapsto> pixel_ds 3, 1 \<mapsto> pixel_ds 120],
      variables = [''tr'' \<mapsto> 0, ''ts'' \<mapsto> 1, ''same_ts'' \<mapsto> 1],
      next_ref = 2,
      nmz = None\<rparr>"

text \<open>
  Notebooks that the cells reach from \<open>image_notebook\<close> and \<open>blob_notebook\<close>:
  after \<^verbatim>\<open>ts.X /= 255\<close>, after the data cell of notebook 06, after fitting the
  normaliser on \<^verbatim>\<open>tr\<close>, and after fitting it again on \<^verbatim>\<open>ts\<close>.
\<close>

definition divided :: "dataset \<Rightarrow> dataset" where
  "divided ds = ds\<lparr>X := divide_by exact 255 (X ds)\<rparr>"

definition divided_ts_notebook :: notebook where
  "divided_ts_notebook =
     image_notebook\<lparr>objects := (objects image_notebook)(1 \<mapsto> divided (pixel_ds 120))\<rparr>"

definition divided_notebook :: notebook where
  "divided_notebook =
     image_notebook\<lparr>objects :=
       (objects image_notebook)(0 \<mapsto> divided (pixel_ds 3), 1 \<mapsto> divided (pixel_ds 120))\<rparr>"

definition fitted_notebook :: notebook where
  "fitted_notebook =
     \<lparr>objects = [0 \<mapsto> blob_tr\<lparr>X := [[0, 0], [1, 1]]\<rparr>, 1 \<mapsto> blob_val, 2 \<mapsto> blob_ts],
      variables = [''tr'' \<mapsto> 0, ''val'' \<mapsto> 1, ''ts'' \<mapsto> 2],
      next_ref = 3,
      nmz = Some blob_normalizer\<rparr>"

definition refitted_notebook :: notebook where
  "refitted_notebook =
     \<lparr>objects = [0 \<mapsto> blob_tr, 1 \<mapsto> blob_val, 2 \<mapsto> blob_ts\<lparr>X := [[0, 0]]\<rparr>],
      variables = [''tr'' \<mapsto> 0, ''val'' \<mapsto> 1, ''ts'' \<mapsto> 2],
      next_ref = 3,
      nmz = Some \<lparr>feature_min = [-2, 0], feature_max = [-2, 0]\<rparr>\<rparr>"

text \<open>
  Worlds for the guarded steps: \<open>stale_world\<close> has a \<^verbatim>\<open>unica_mlsec_labs\<close>
  directory without \<^verbatim>\<open>models\<close> in it; \<open>nested_world\<close>, \<open>cloned_world\<close>,
  \<open>loaded_world\<close>, \<open>distilled_world\<close> and \<open>teacher_world\<close> are worlds that the
  steps reach.
\<close>

definition stale_world :: world where
  "stale_world =
     \<lparr>files = [[''content''] \<mapsto> Dir, [''content'', ''unica_mlsec_labs''] \<mapsto> Dir],
      cwd = [''content'']\<rparr>"

definition nested_world :: world where
  "nested_world =
     \<lparr>files = [[''content''] \<mapsto> Dir, [''content'', ''unica_mlsec_labs''] \<mapsto> Dir,
               [''content'', ''unica_mlsec_labs'', ''unica_mlsec_labs''] \<mapsto> Dir,
               [''content'', ''unica_mlsec_labs'', ''unica_mlsec_labs'', ''models''] \<mapsto> Dir],
      cwd = [''content'', ''unica_mlsec_labs'', ''unica_mlsec_labs'']\<rparr>"

definition cloned_world :: world where
  "cloned_world =
     \<lparr>files = [[''content''] \<mapsto> Dir, [''content'', ''unica_mlsec_labs''] \<mapsto> Dir,
               [''content'', ''unica_mlsec_labs'', ''models''] \<mapsto> Dir],
      cwd = [''content'', ''unica_mlsec_labs'']\<rparr>"

definition loaded_world :: world where
  "loaded_world =
     \<lparr>files = [[''content''] \<mapsto> Dir, [''content'', ''pretrained''] \<mapsto> Dir,
               [''content'', ''pretrained'', ''kwta_spresnet18_0.1_cifar_adv.pth'']
                 \<mapsto> File ''1Af_owmMvg1LxjITLE1gFUmPx5idogeTP''],
      cwd = [''content'']\<rparr>"

definition distilled_world :: world where
  "distilled_world =
     \<lparr>files = [[''content''] \<mapsto> Dir, [''content'', ''pretrained''] \<mapsto> Dir,
               [''content'', ''pretrained'', ''kwta_spresnet18_0.1_cifar_adv.pth'']
                 \<mapsto> File ''1Af_owmMvg1LxjITLE1gFUmPx5idogeTP'',
               [''content'', ''pretrained'', ''mnist_distilled.pt'']
                 \<mapsto> File ''1s7Kfa2Bs5nY2zLd6dVAxUqNbCNQhPYxs''],
      cwd = [''content'']\<rparr>"

definition teacher_world :: world where
  "teacher_world =
     \<lparr>files = [[''content''] \<mapsto> Dir, [''content'', ''pretrained''] \<mapsto> Dir,
               [''content'', ''pretrained'', ''kwta_spresnet18_0.1_cifar_adv.pth'']
                 \<mapsto> File ''1Af_owmMvg1LxjITLE1gFUmPx5idogeTP'',
               [''content'', ''pretrained'', ''mnist_distilled.pt'']
                 \<mapsto> File ''1s7Kfa2Bs5nY2zLd6dVAxUqNbCNQhPYxs'',
               [''content'', ''pretrained'', ''mnist_teacher.pt'']
                 \<mapsto> File ''1qmjepc4k_o4BIqCvUJgwg-K19CaovOrQ''],
      cwd = [''content'']\<rparr>"

section \<open>Properties of the cells\<close>

lemma and_then_Inl [simp]: "and_then (Inl e) f = Inl e"
  by (simp add: and_then_def)

lemma and_then_Inr [simp]: "and_then (Inr v) f = f v"
  by (simp add: and_then_def)

lemma lookup_deref:
  "lookup name nb = Some ds \<Longrightarrow> \<exists>r. variables nb name = Some r \<and> objects nb r = Some ds
     \<and> deref name nb = Inr (r, ds)"
  by (auto simp: lookup_def deref_def split: option.splits)

lemma deref_Inr:
  "deref name nb = Inr (r, ds) \<Longrightarrow> variables nb name = Some r \<and> objects nb r = Some ds
     \<and> lookup name nb = Some ds"
  by (auto simp: deref_def lookup_def split: option.splits)

subsection \<open>The bounds of the attack space\<close>

lemma fold_min_Min: "fold min vs (v::real) = Min (set (v # vs))"
  by (rule Min.set_eq_fold [symmetric])

lemma fold_max_Max: "fold max vs (v::real) = Max (set (v # vs))"
  by (rule Max.set_eq_fold [symmetric])

lemma carray_min_le:
  assumes "carray_min a = Inr l" "row \<in> set a" "v \<in> set row"
  shows "l \<le> v"
proof -
  from assms(2,3) have mem: "v \<in> set (concat a)" by auto
  then obtain c cs where c: "concat a = c # cs" by (cases "concat a") auto
  with assms(1) have "l = Min (set (concat a))"
    by (simp add: carray_min_def fold_min_Min)
  with mem show ?thesis by simp
qed

lemma carray_max_ge:
  assumes "carray_max a = Inr u" "row \<in> set a" "v \<in> set row"
  shows "v \<le> u"
proof -
  from assms(2,3) have mem: "v \<in> set (concat a)" by auto
  then obtain c cs where c: "concat a = c # cs" by (cases "concat a") auto
  with assms(1) have "u = Max (set (concat a))"
    by (simp add: carray_max_def fold_max_Max)
  with mem show ?thesis by simp
qed

lemma carray_min_defined: "concat a \<noteq> [] \<Longrightarrow> \<exists>l. carray_min a = Inr l"
  by (cases "concat a") (auto simp: carray_min_def)

lemma carray_max_defined: "concat a \<noteq> [] \<Longrightarrow> \<exists>u. carray_max a = Inr u"
  by (cases "concat a") (auto simp: carray_max_def)

text \<open>
  Claim C10.  In the poisoning notebook, when the validation set has at least one
  sample (of two features each), computing the bounds raises nothing, the lower
  bound is at most the upper bound, every validation sample satisfies the box
  constraint built from the two bounds, and so does the point whose features all
  equal the lower bound: the box is not empty.
\<close>

theorem attack_bounds_box:
  assumes nonempty: "X val \<noteq> []"
    and width: "list_all (\<lambda>row. length row = n_features) (X val)"
  shows "\<exists>l u. attack_bounds val = Inr (l, u) \<and> l \<le> u
           \<and> list_all (is_satisfied (CConstraintBox l u)) (X val)
           \<and> is_satisfied (CConstraintBox l u) (replicate n_features l)"
proof -
  from nonempty obtain r rs where rows: "X val = r # rs" by (cases "X val") auto
  with width have "length r = 2" by (simp add: n_features_def)
  then obtain v vs where r: "r = v # vs" by (cases r) auto
  with rows have ne: "concat (X val) \<noteq> []" by simp
  from carray_min_defined [OF ne] obtain l where l: "carray_min (X val) = Inr l" ..
  from carray_max_defined [OF ne] obtain u where u: "carray_max (X val) = Inr u" ..
  have bounds: "attack_bounds val = Inr (l, u)"
    by (simp add: attack_bounds_def and_then_def l u)
  have inside: "l \<le> x \<and> x \<le> u" if "row \<in> set (X val)" "x \<in> set row" for row x
    using carray_min_le [OF l that] carray_max_ge [OF u that] by simp
  have "l \<le> v \<and> v \<le> u" by (rule inside [of r]) (simp_all add: rows r)
  then have le: "l \<le> u" by simp
  have all: "list_all (is_satisfied (CConstraintBox l u)) (X val)"
    using inside by (auto simp: list_all_iff is_satisfied_def CConstraintBox_def)
  have pt: "is_satisfied (CConstraintBox l u) (replicate n_features l)"
    using le by (simp add: is_satisfied_def CConstraintBox_def list_all_iff)
  from bounds le all pt show ?thesis by blast
qed

theorem attack_bounds_box_witness:
  "X \<lparr>X = [[0, 1], [2, 3]], Y = [0, 1], header = None\<rparr> \<noteq> []
   \<and> list_all (\<lambda>row. length row = n_features) (X \<lparr>X = [[0, 1], [2, 3]], Y = [0, 1], header = None\<rparr>)
   \<and> attack_bounds \<lparr>X = [[0, 1], [2, 3]], Y = [0, 1], header = None\<rparr> = Inr (0, 3)
   \<and> (\<exists>l u. attack_bounds \<lparr>X = [[0, 1], [2, 3]], Y = [0, 1], header = None\<rparr> = Inr (l, u) \<and> l \<le> u
           \<and> list_all (is_satisfied (CConstraintBox l u)) (X \<lparr>X = [[0, 1], [2, 3]], Y = [0, 1], header = None\<rparr>)
           \<and> is_satisfied (CConstraintBox l u) (replicate n_features l))"
proof -
  have h1: "X \<lparr>X = [[0, 1], [2, 3]], Y = [0, 1], header = None\<rparr> \<noteq> []" by simp
  have h2: "list_all (\<lambda>row. length row = n_features) (X \<lparr>X = [[0, 1], [2, 3]], Y = [0, 1], header = None\<rparr>)"
    by (simp add: n_features_def)
  have v: "attack_bounds \<lparr>X = [[0, 1], [2, 3]], Y = [0, 1], header = None\<rparr> = Inr (0, 3)"
    by (simp add: attack_bounds_def and_then_def carray_min_def carray_max_def)
  from h1 h2 v attack_bounds_box [OF h1 h2] show ?thesis by blast
qed

subsection \<open>Exception handling\<close>




















subsection \<open>Evaluating an attack that does not move\<close>

lemma performance_score_defined:
  "length y_pred = length y_true \<Longrightarrow> \<exists>score. performance_score rnd y_true y_pred = Inr score"
  by (simp add: performance_score_def)

text \<open>
  Claim C8.  When the test set has at least \<open>idx\<close> samples and the classifier's
  prediction and the attack's run complete with \<open>idx\<close> labels each, the
  evaluation cell completes: it returns the score of the clean predictions and the
  score of the adversarial predictions, both computed by \<open>performance_score\<close>,
  whatever the attack returned.  When the attack returns the clean predictions,
  the robust accuracy is the same number as the accuracy.
\<close>

theorem evaluate_attack_unconditional:
  assumes rows: "idx \<le> length (X ts)" and labels: "idx \<le> length (Y ts)"
    and clean: "predict (take idx (X ts)) = Inr y_pred"
    and adv: "run (take idx (X ts)) (take idx (Y ts)) = Inr (y_pred_adv, scores, adv_ds, f_obj)"
    and len: "length y_pred = idx"
    and len_adv: "length y_pred_adv = idx"
  shows "\<exists>accuracy robust_accuracy.
           evaluate_attack rnd predict run idx ts = Inr (accuracy, robust_accuracy)
           \<and> performance_score rnd (take idx (Y ts)) y_pred = Inr accuracy
           \<and> performance_score rnd (take idx (Y ts)) y_pred_adv = Inr robust_accuracy
           \<and> (y_pred_adv = y_pred \<longrightarrow> robust_accuracy = accuracy)"
proof -
  from labels have n: "length (take idx (Y ts)) = idx" by simp
  obtain a where a: "performance_score rnd (take idx (Y ts)) y_pred = Inr a"
    using performance_score_defined [of y_pred "take idx (Y ts)" rnd] len n by auto
  obtain r where r: "performance_score rnd (take idx (Y ts)) y_pred_adv = Inr r"
    using performance_score_defined [of y_pred_adv "take idx (Y ts)" rnd] len_adv n by auto
  have "evaluate_attack rnd predict run idx ts = Inr (a, r)"
    using rows labels by (simp add: evaluate_attack_def rows_upto_def clean adv a r)
  moreover have "y_pred_adv = y_pred \<longrightarrow> r = a"
    using a r by auto
  ultimately show ?thesis using a r by blast
qed

theorem evaluate_attack_unconditional_witness:
  "4 \<le> length (X example_ts) \<and> 4 \<le> length (Y example_ts)
   \<and> example_predict (take 4 (X example_ts)) = Inr [0, 1, 0, 1]
   \<and> stuck_run (take 4 (X example_ts)) (take 4 (Y example_ts))
       = Inr ([0, 1, 0, 1], [], \<lparr>X = take 4 (X example_ts), Y = [0, 1, 0, 1], header = None\<rparr>, 0)
   \<and> evaluate_attack exact example_predict stuck_run 4 example_ts
       = Inr (Finite (3 / 4), Finite (3 / 4))"
proof -
  have rows: "4 \<le> length (X example_ts)" and labels: "4 \<le> length (Y example_ts)"
    by (simp_all add: example_ts_def)
  have clean: "example_predict (take 4 (X example_ts)) = Inr [0, 1, 0, 1]"
    by (simp add: example_predict_def example_ts_def)
  have adv: "stuck_run (take 4 (X example_ts)) (take 4 (Y example_ts))
       = Inr ([0, 1, 0, 1], [], \<lparr>X = take 4 (X example_ts), Y = [0, 1, 0, 1], header = None\<rparr>, 0)"
    by (simp add: stuck_run_def example_predict_def example_ts_def)
  have len: "length [0, 1, 0, 1 :: int] = 4" by simp
  have score: "performance_score exact (take 4 (Y example_ts)) [0, 1, 0, 1] = Inr (Finite (3 / 4))"
    by (simp add: performance_score_def example_ts_def exact_def)
  from evaluate_attack_unconditional
         [where predict = example_predict and run = stuck_run and idx = 4 and ts = example_ts
            and rnd = exact, OF rows labels clean adv len len] score
  have "evaluate_attack exact example_predict stuck_run 4 example_ts
          = Inr (Finite (3 / 4), Finite (3 / 4))"
    by auto
  with rows labels clean adv show ?thesis by (intro conjI)
qed

subsection \<open>Rescaling\<close>

lemma divide_by_unit:
  assumes "rounds rnd" "in_byte_range a"
  shows "in_unit_interval (divide_by rnd 255 a)"
proof -
  have "0 \<le> rnd (v / 255) \<and> rnd (v / 255) \<le> 1" if "0 \<le> v" "v \<le> 255" for v
  proof -
    from assms(1) have m: "mono rnd" and z: "rnd 0 = 0" and o: "rnd 1 = 1"
      by (simp_all add: rounds_def)
    from that have "0 \<le> v / 255" "v / 255 \<le> 1" by simp_all
    with monoD [OF m, of 0 "v / 255"] monoD [OF m, of "v / 255" 1] z o
    show ?thesis by simp
  qed
  with assms(2) show ?thesis
    by (auto simp: in_byte_range_def in_unit_interval_def divide_by_def list_all_iff)
qed

lemma unit_interval_byte_range: "in_unit_interval a \<Longrightarrow> in_byte_range a"
  by (fastforce simp: in_byte_range_def in_unit_interval_def list_all_iff)

lemma in_byte_range_take: "in_byte_range a \<Longrightarrow> in_byte_range (take n a)"
  by (auto simp: in_byte_range_def list_all_iff dest: in_set_takeD)

lemma idiv_255_Inr:
  assumes "lookup name nb = Some ds"
  shows "\<exists>r. variables nb name = Some r \<and> objects nb r = Some ds
           \<and> idiv_255 rnd name nb
               = Inr (nb\<lparr>objects := (objects nb)(r \<mapsto> ds\<lparr>X := divide_by rnd 255 (X ds)\<rparr>)\<rparr>)"
  using lookup_deref [OF assms] by (auto simp: idiv_255_def assign_X_def)

lemma rebind_first_samples_Inr:
  assumes "lookup name nb = Some ds" "n \<le> length (X ds)" "n \<le> length (Y ds)"
  shows "rebind_first_samples name n nb
           = Inr (nb\<lparr>objects := (objects nb)(next_ref nb \<mapsto> ds\<lparr>X := take n (X ds), Y := take n (Y ds)\<rparr>),
                     variables := (variables nb)(name \<mapsto> next_ref nb),
                     next_ref := Suc (next_ref nb)\<rparr>)"
  using lookup_deref [OF assms(1)] assms(2,3)
  by (auto simp: rebind_first_samples_def first_samples_def rows_upto_def)

lemma rounds_exact: "rounds exact"
  by (simp add: rounds_def exact_def mono_def)

lemma lookup_ts_image: "lookup ''ts'' image_notebook = Some (pixel_ds 120)"
  by (simp add: lookup_def image_notebook_def)

lemma lookup_tr_image: "lookup ''tr'' image_notebook = Some (pixel_ds 3)"
  by (simp add: lookup_def image_notebook_def)

lemma pixel_ds_byte_range: "n \<le> 256 \<Longrightarrow> in_byte_range (X (pixel_ds n))"
  by (auto simp: in_byte_range_def pixel_ds_def list_all_iff)

lemma pixel_ds_length: "length (X (pixel_ds n)) = n \<and> length (Y (pixel_ds n)) = n"
  by (simp add: pixel_ds_def)

lemma fit_tr_blobs:
  "fit_transform_X exact ''tr'' (blob_notebook\<lparr>nmz := None\<rparr>) = Inr fitted_notebook"
proof -
  have f: "fit_transform exact (X blob_tr) = Inr (blob_normalizer, [[0, 0], [1, 1]])"
    by (simp add: fit_transform_def transform_def transform_row_def scale_def slope_def
        exact_def blob_tr_def blob_normalizer_def)
  show ?thesis
    by (simp add: fit_transform_X_def deref_def blob_notebook_def f fun_eq_iff
        fitted_notebook_def)
qed

lemma transform_rest_blobs:
  "run_cell [transform_X exact ''val'', transform_X exact ''ts''] fitted_notebook
     = Inr normalized_notebook"
proof -
  have v: "transform exact blob_normalizer (X blob_val) = Inr [[3 / 2, 1 / 2]]"
    by (simp add: transform_def transform_row_def scale_def slope_def
        exact_def blob_val_def blob_normalizer_def)
  have t: "transform exact blob_normalizer (X blob_ts) = Inr [[- (1 / 2), 1 / 2]]"
    by (simp add: transform_def transform_row_def scale_def slope_def
        exact_def blob_ts_def blob_normalizer_def)
  show ?thesis
    by (simp add: transform_X_def assign_X_def deref_def v t fun_eq_iff
        fitted_notebook_def normalized_notebook_def)
qed

lemma transform_ts_fitted:
  "transform_X exact ''ts'' fitted_notebook
     = Inr (fitted_notebook\<lparr>objects :=
         (objects fitted_notebook)(2 \<mapsto> blob_ts\<lparr>X := [[- (1 / 2), 1 / 2]]\<rparr>)\<rparr>)"
proof -
  have t: "transform exact blob_normalizer (X blob_ts) = Inr [[- (1 / 2), 1 / 2]]"
    by (simp add: transform_def transform_row_def scale_def slope_def
        exact_def blob_ts_def blob_normalizer_def)
  show ?thesis
    by (simp add: transform_X_def assign_X_def deref_def t fitted_notebook_def)
qed

lemma normalize_blobs: "normalize_cell exact blob_notebook = Inr normalized_notebook"
  using transform_rest_blobs by (simp add: normalize_cell_def fit_tr_blobs)

text \<open>
  Claim C3, as the code has it.  Pixel values between 0 and 255 divided by 255 lie
  in the unit interval, whatever the rounding: in notebook 04 for the first 100
  samples of a test set that has at least 100, and in notebook 06 for the training
  and the test set.
\<close>

theorem rescaled_into_unit_interval:
  "(rounds rnd \<and> lookup ''ts'' nb = Some ds \<and> 100 \<le> length (X ds) \<and> 100 \<le> length (Y ds)
      \<and> in_byte_range (X ds)
    \<longrightarrow> (\<exists>nb' ds'. data_cell_04 rnd nb = Inr nb' \<and> lookup ''ts'' nb' = Some ds'
                   \<and> num_samples ds' = 100 \<and> in_unit_interval (X ds')))
   \<and> (rounds rnd \<and> lookup ''tr'' nb = Some tr \<and> lookup ''ts'' nb = Some ts
      \<and> in_byte_range (X tr) \<and> in_byte_range (X ts)
    \<longrightarrow> (\<exists>nb' tr' ts'. data_cell_06 rnd nb = Inr nb' \<and> lookup ''tr'' nb' = Some tr'
                   \<and> lookup ''ts'' nb' = Some ts'
                   \<and> in_unit_interval (X tr') \<and> in_unit_interval (X ts')))"
proof (intro conjI impI)
  assume h: "rounds rnd \<and> lookup ''ts'' nb = Some ds \<and> 100 \<le> length (X ds)
    \<and> 100 \<le> length (Y ds) \<and> in_byte_range (X ds)"
  let ?ds1 = "ds\<lparr>X := take 100 (X ds), Y := take 100 (Y ds)\<rparr>"
  let ?nb1 = "nb\<lparr>objects := (objects nb)(next_ref nb \<mapsto> ?ds1),
                 variables := (variables nb)(''ts'' \<mapsto> next_ref nb),
                 next_ref := Suc (next_ref nb)\<rparr>"
  from h have step1: "rebind_first_samples ''ts'' 100 nb = Inr ?nb1"
    by (intro rebind_first_samples_Inr) simp_all
  have l1: "lookup ''ts'' ?nb1 = Some ?ds1" by (simp add: lookup_def)
  from idiv_255_Inr [OF l1, of rnd] obtain r where
    r: "variables ?nb1 ''ts'' = Some r"
    and step2: "idiv_255 rnd ''ts'' ?nb1
      = Inr (?nb1\<lparr>objects := (objects ?nb1)(r \<mapsto> ?ds1\<lparr>X := divide_by rnd 255 (X ?ds1)\<rparr>)\<rparr>)"
    by blast
  let ?ds2 = "?ds1\<lparr>X := divide_by rnd 255 (X ?ds1)\<rparr>"
  let ?nb2 = "?nb1\<lparr>objects := (objects ?nb1)(r \<mapsto> ?ds2)\<rparr>"
  have cell: "data_cell_04 rnd nb = Inr ?nb2"
    by (simp only: data_cell_04_def run_cell.simps step1 step2 and_then_Inr)
  have l2: "lookup ''ts'' ?nb2 = Some ?ds2" using r by (simp add: lookup_def)
  have n: "num_samples ?ds2 = 100" using h by (simp add: num_samples_def divide_by_def)
  have u: "in_unit_interval (X ?ds2)"
    using h by (simp add: divide_by_unit in_byte_range_take)
  from cell l2 n u
  show "\<exists>nb' ds'. data_cell_04 rnd nb = Inr nb' \<and> lookup ''ts'' nb' = Some ds'
                   \<and> num_samples ds' = 100 \<and> in_unit_interval (X ds')"
    by blast
next
  assume h: "rounds rnd \<and> lookup ''tr'' nb = Some tr \<and> lookup ''ts'' nb = Some ts
      \<and> in_byte_range (X tr) \<and> in_byte_range (X ts)"
  then have rn: "rounds rnd" and ltr: "lookup ''tr'' nb = Some tr"
    and lts: "lookup ''ts'' nb = Some ts" by simp_all
  from idiv_255_Inr [OF ltr, of rnd] obtain r1 where
    r1: "variables nb ''tr'' = Some r1" "objects nb r1 = Some tr"
    and step1: "idiv_255 rnd ''tr'' nb
      = Inr (nb\<lparr>objects := (objects nb)(r1 \<mapsto> tr\<lparr>X := divide_by rnd 255 (X tr)\<rparr>)\<rparr>)"
    by blast
  let ?tr1 = "tr\<lparr>X := divide_by rnd 255 (X tr)\<rparr>"
  let ?nb1 = "nb\<lparr>objects := (objects nb)(r1 \<mapsto> ?tr1)\<rparr>"
  from lookup_deref [OF lts] obtain r2 where
    r2: "variables nb ''ts'' = Some r2" "objects nb r2 = Some ts" by blast
  define ts1 where "ts1 = (if r2 = r1 then ?tr1 else ts)"
  have l1: "lookup ''ts'' ?nb1 = Some ts1" using r2 by (simp add: lookup_def ts1_def)
  have b1: "in_byte_range (X ts1)"
    using h by (simp add: ts1_def divide_by_unit unit_interval_byte_range)
  from idiv_255_Inr [OF l1, of rnd] r2 have
    step2: "idiv_255 rnd ''ts'' ?nb1
      = Inr (?nb1\<lparr>objects := (objects ?nb1)(r2 \<mapsto> ts1\<lparr>X := divide_by rnd 255 (X ts1)\<rparr>)\<rparr>)"
    by simp
  let ?ts2 = "ts1\<lparr>X := divide_by rnd 255 (X ts1)\<rparr>"
  let ?nb2 = "?nb1\<lparr>objects := (objects ?nb1)(r2 \<mapsto> ?ts2)\<rparr>"
  have cell: "data_cell_06 rnd nb = Inr ?nb2"
    by (simp only: data_cell_06_def run_cell.simps step1 step2 and_then_Inr)
  have lts2: "lookup ''ts'' ?nb2 = Some ?ts2" using r2 by (simp add: lookup_def)
  have uts: "in_unit_interval (X ?ts2)" using rn b1 by (simp add: divide_by_unit)
  have ltr2: "lookup ''tr'' ?nb2 = Some (if r1 = r2 then ?ts2 else ?tr1)"
    using r1 by (simp add: lookup_def)
  have utr: "in_unit_interval (X (if r1 = r2 then ?ts2 else ?tr1))"
    using uts h by (simp add: divide_by_unit)
  from cell ltr2 lts2 utr uts
  show "\<exists>nb' tr' ts'. data_cell_06 rnd nb = Inr nb' \<and> lookup ''tr'' nb' = Some tr'
                   \<and> lookup ''ts'' nb' = Some ts'
                   \<and> in_unit_interval (X tr') \<and> in_unit_interval (X ts')"
    by blast
qed

theorem rescaled_into_unit_interval_witness:
  "rounds exact
   \<and> lookup ''ts'' image_notebook = Some (pixel_ds 120)
   \<and> 100 \<le> length (X (pixel_ds 120)) \<and> 100 \<le> length (Y (pixel_ds 120))
   \<and> in_byte_range (X (pixel_ds 120))
   \<and> (\<exists>nb' ds'. data_cell_04 exact image_notebook = Inr nb' \<and> lookup ''ts'' nb' = Some ds'
                   \<and> num_samples ds' = 100 \<and> in_unit_interval (X ds'))
   \<and> lookup ''tr'' image_notebook = Some (pixel_ds 3)
   \<and> in_byte_range (X (pixel_ds 3))
   \<and> (\<exists>nb' tr' ts'. data_cell_06 exact image_notebook = Inr nb'
                   \<and> lookup ''tr'' nb' = Some tr' \<and> lookup ''ts'' nb' = Some ts'
                   \<and> in_unit_interval (X tr') \<and> in_unit_interval (X ts'))"
proof -
  note main = rescaled_into_unit_interval
  have len: "100 \<le> length (X (pixel_ds 120))" "100 \<le> length (Y (pixel_ds 120))"
    by (simp_all add: pixel_ds_length)
  have b120: "in_byte_range (X (pixel_ds 120))" by (rule pixel_ds_byte_range) simp
  have b3: "in_byte_range (X (pixel_ds 3))" by (rule pixel_ds_byte_range) simp
  have c1: "\<exists>nb' ds'. data_cell_04 exact image_notebook = Inr nb' \<and> lookup ''ts'' nb' = Some ds'
                   \<and> num_samples ds' = 100 \<and> in_unit_interval (X ds')"
    by (rule mp [OF conjunct1 [OF main]
                  conjI [OF rounds_exact conjI [OF lookup_ts_image conjI [OF len(1)
                    conjI [OF len(2) b120]]]]])
  have c2: "\<exists>nb' tr' ts'. data_cell_06 exact image_notebook = Inr nb'
                   \<and> lookup ''tr'' nb' = Some tr' \<and> lookup ''ts'' nb' = Some ts'
                   \<and> in_unit_interval (X tr') \<and> in_unit_interval (X ts')"
    by (rule mp [OF conjunct2 [OF main]
                  conjI [OF rounds_exact conjI [OF lookup_tr_image conjI [OF lookup_ts_image
                    conjI [OF b3 b120]]]]])
  from rounds_exact lookup_ts_image len b120 c1 lookup_tr_image b3 c2
  show ?thesis by (intro conjI)
qed

text \<open>
  The claim C3 as the spec states it fails in the poisoning notebook, where the
  normaliser is fitted on the training set only: a validation sample and a test
  sample outside the per-feature range of the training set are mapped outside the
  unit interval.  Every number of this run is a multiple of one half, so that no
  operation rounds.
\<close>

theorem validation_outside_unit_interval:
  "normalize_cell exact blob_notebook = Inr normalized_notebook
   \<and> lookup ''val'' normalized_notebook = Some (blob_val\<lparr>X := [[3 / 2, 1 / 2]]\<rparr>)
   \<and> \<not> in_unit_interval (X (blob_val\<lparr>X := [[3 / 2, 1 / 2]]\<rparr>))
   \<and> lookup ''ts'' normalized_notebook = Some (blob_ts\<lparr>X := [[- (1 / 2), 1 / 2]]\<rparr>)
   \<and> \<not> in_unit_interval (X (blob_ts\<lparr>X := [[- (1 / 2), 1 / 2]]\<rparr>))"
  by (simp add: normalize_blobs lookup_def normalized_notebook_def in_unit_interval_def)

subsection \<open>Normalisation in place\<close>

lemma only_X_changed_refl: "only_X_changed nb nb"
  by (simp add: only_X_changed_def same_but_X_def split: option.splits)

lemma only_X_changed_nmz: "only_X_changed nb (nb\<lparr>nmz := z\<rparr>)"
  by (simp add: only_X_changed_def same_but_X_def split: option.splits)

lemma only_X_changed_trans:
  assumes "only_X_changed a b" "only_X_changed b c"
  shows "only_X_changed a c"
proof -
  have "case objects a r of None \<Rightarrow> objects c r = None
        | Some ds \<Rightarrow> (case objects c r of None \<Rightarrow> False | Some ds' \<Rightarrow> same_but_X ds ds')" for r
  proof (cases "objects a r")
    case None
    with assms(1) have "objects b r = None"
      by (auto simp: only_X_changed_def dest: spec [of _ r])
    with assms(2) have "objects c r = None"
      by (auto simp: only_X_changed_def dest: spec [of _ r])
    with None show ?thesis by simp
  next
    case (Some ds)
    with assms(1) obtain ds1 where b: "objects b r = Some ds1" and s1: "same_but_X ds ds1"
      by (auto simp: only_X_changed_def dest!: spec [of _ r] split: option.splits)
    with assms(2) obtain ds2 where c: "objects c r = Some ds2" and s2: "same_but_X ds1 ds2"
      by (auto simp: only_X_changed_def dest!: spec [of _ r] split: option.splits)
    from s1 s2 have "same_but_X ds ds2" by (simp add: same_but_X_def)
    with Some c show ?thesis by simp
  qed
  with assms show ?thesis by (simp add: only_X_changed_def)
qed

lemma store_X_only:
  assumes "objects nb r = Some ds" "length x = length (X ds)"
  shows "only_X_changed nb (nb\<lparr>objects := (objects nb)(r \<mapsto> ds\<lparr>X := x\<rparr>)\<rparr>)"
  using assms
  by (auto simp: only_X_changed_def same_but_X_def num_samples_def split: option.splits)

lemma assign_X_Inr:
  assumes "assign_X name f nb = Inr nb'"
  shows "\<exists>r ds x. variables nb name = Some r \<and> objects nb r = Some ds \<and> f (X ds) = Inr x
           \<and> nb' = nb\<lparr>objects := (objects nb)(r \<mapsto> ds\<lparr>X := x\<rparr>)\<rparr>"
  using assms
  by (auto simp: assign_X_def and_then_def dest: deref_Inr split: sum.splits prod.splits)

lemma transform_Inr: "transform rnd nz a = Inr a' \<Longrightarrow> a' = map (transform_row rnd nz) a"
  by (auto simp: transform_def split: if_splits)

lemma fit_transform_Inr:
  "fit_transform rnd a = Inr (nz, a') \<Longrightarrow> a' = map (transform_row rnd nz) a"
  by (auto simp: fit_transform_def and_then_def transform_def split: sum.splits if_splits)

lemma idiv_255_frame:
  assumes "idiv_255 rnd name nb = Inr nb'"
  shows "only_X_changed nb nb' \<and> rows_mapped (map (\<lambda>v. rnd (v / 255))) name nb nb'
         \<and> (\<forall>r. variables nb name \<noteq> Some r \<longrightarrow> objects nb' r = objects nb r)"
proof -
  from assign_X_Inr [OF assms [unfolded idiv_255_def]] obtain r ds where
    r: "variables nb name = Some r" "objects nb r = Some ds"
    and nb': "nb' = nb\<lparr>objects := (objects nb)(r \<mapsto> ds\<lparr>X := divide_by rnd 255 (X ds)\<rparr>)\<rparr>"
    by auto
  have "only_X_changed nb nb'"
    unfolding nb' by (rule store_X_only [OF r(2)]) (simp add: divide_by_def)
  moreover have "rows_mapped (map (\<lambda>v. rnd (v / 255))) name nb nb'"
    using r by (simp add: rows_mapped_def lookup_def nb' divide_by_def)
  moreover have "\<forall>r'. variables nb name \<noteq> Some r' \<longrightarrow> objects nb' r' = objects nb r'"
    using r by (simp add: nb')
  ultimately show ?thesis by simp
qed

lemma transform_X_frame:
  assumes "transform_X rnd name nb = Inr nb'"
  shows "only_X_changed nb nb' \<and> nmz nb' = nmz nb
         \<and> (\<exists>nz. nmz nb = Some nz \<and> rows_mapped (transform_row rnd nz) name nb nb')
         \<and> (\<forall>r. variables nb name \<noteq> Some r \<longrightarrow> objects nb' r = objects nb r)"
proof -
  from assign_X_Inr [OF assms [unfolded transform_X_def]] obtain r ds x where
    r: "variables nb name = Some r" "objects nb r = Some ds"
    and f: "(case nmz nb of None \<Rightarrow> Inl (OtherError ''NotFittedError'')
             | Some nz \<Rightarrow> transform rnd nz (X ds)) = Inr x"
    and nb': "nb' = nb\<lparr>objects := (objects nb)(r \<mapsto> ds\<lparr>X := x\<rparr>)\<rparr>"
    by auto
  from f obtain nz where nz: "nmz nb = Some nz" and t: "transform rnd nz (X ds) = Inr x"
    by (cases "nmz nb") auto
  note x = transform_Inr [OF t]
  have "only_X_changed nb nb'"
    unfolding nb' by (rule store_X_only [OF r(2)]) (simp add: x)
  moreover have "rows_mapped (transform_row rnd nz) name nb nb'"
    using r by (simp add: rows_mapped_def lookup_def nb' x)
  moreover have "\<forall>r'. variables nb name \<noteq> Some r' \<longrightarrow> objects nb' r' = objects nb r'"
    using r by (simp add: nb')
  ultimately show ?thesis using nz by (simp add: nb')
qed

lemma fit_transform_X_frame:
  assumes "fit_transform_X rnd name nb = Inr nb'"
  shows "only_X_changed nb nb'
         \<and> (\<exists>nz. nmz nb' = Some nz \<and> rows_mapped (transform_row rnd nz) name nb nb')
         \<and> (\<forall>r. variables nb name \<noteq> Some r \<longrightarrow> objects nb' r = objects nb r)"
proof -
  from assms obtain r ds nz x where
    d: "deref name nb = Inr (r, ds)" and f: "fit_transform rnd (X ds) = Inr (nz, x)"
    and nb': "nb' = nb\<lparr>objects := (objects nb)(r \<mapsto> ds\<lparr>X := x\<rparr>), nmz := Some nz\<rparr>"
    by (auto simp: fit_transform_X_def and_then_def split: sum.splits prod.splits)
  from deref_Inr [OF d] have r: "variables nb name = Some r" "objects nb r = Some ds"
    by simp_all
  note x = fit_transform_Inr [OF f]
  have "only_X_changed nb (nb\<lparr>objects := (objects nb)(r \<mapsto> ds\<lparr>X := x\<rparr>)\<rparr>)"
    by (rule store_X_only [OF r(2)]) (simp add: x)
  then have "only_X_changed nb nb'"
    unfolding nb' by (rule only_X_changed_trans) (rule only_X_changed_nmz)
  moreover have "rows_mapped (transform_row rnd nz) name nb nb'"
    using r by (simp add: rows_mapped_def lookup_def nb' x)
  moreover have "\<forall>r'. variables nb name \<noteq> Some r' \<longrightarrow> objects nb' r' = objects nb r'"
    using r by (simp add: nb')
  ultimately show ?thesis by (simp add: nb')
qed

lemma data_cell_06_frame:
  assumes "data_cell_06 rnd nb = Inr nb'"
  shows "only_X_changed nb nb'"
proof -
  from assms obtain nb1 where s1: "idiv_255 rnd ''tr'' nb = Inr nb1"
    and s2: "idiv_255 rnd ''ts'' nb1 = Inr nb'"
    by (auto simp: data_cell_06_def and_then_def split: sum.splits)
  from idiv_255_frame [OF s1] idiv_255_frame [OF s2] show ?thesis
    by (blast intro: only_X_changed_trans)
qed

lemma normalize_cell_frame:
  assumes "normalize_cell rnd nb = Inr nb'"
  shows "only_X_changed nb nb'"
proof -
  from assms obtain nb1 nb2 where s1: "fit_transform_X rnd ''tr'' (nb\<lparr>nmz := None\<rparr>) = Inr nb1"
    and s2: "transform_X rnd ''val'' nb1 = Inr nb2"
    and s3: "transform_X rnd ''ts'' nb2 = Inr nb'"
    by (auto simp: normalize_cell_def and_then_def split: sum.splits)
  have "only_X_changed nb (nb\<lparr>nmz := None\<rparr>)" by (rule only_X_changed_nmz)
  moreover from fit_transform_X_frame [OF s1] have "only_X_changed (nb\<lparr>nmz := None\<rparr>) nb1" by simp
  moreover from transform_X_frame [OF s2] have "only_X_changed nb1 nb2" by simp
  moreover from transform_X_frame [OF s3] have "only_X_changed nb2 nb'" by simp
  ultimately show ?thesis by (blast intro: only_X_changed_trans)
qed

lemma idiv_ts_image: "idiv_255 exact ''ts'' image_notebook = Inr divided_ts_notebook"
  by (simp add: idiv_255_def assign_X_def deref_def image_notebook_def divided_ts_notebook_def
      divided_def)

lemma data_cell_06_image: "data_cell_06 exact image_notebook = Inr divided_notebook"
  by (simp add: data_cell_06_def idiv_255_def assign_X_def deref_def image_notebook_def
      divided_notebook_def divided_def)

lemma refit_blobs: "refit_cell exact blob_notebook = Inr refitted_notebook"
proof -
  have f: "fit_transform exact (X blob_ts)
             = Inr (\<lparr>feature_min = [-2, 0], feature_max = [-2, 0]\<rparr>, [[0, 0]])"
    by (simp add: fit_transform_def transform_def transform_row_def scale_def slope_def
        exact_def blob_ts_def)
  show ?thesis
    by (simp add: refit_cell_def fit_transform_X_def deref_def blob_notebook_def f fun_eq_iff
        refitted_notebook_def)
qed

lemma same_name_image: "variables image_notebook ''same_ts'' = variables image_notebook ''ts''"
  by (simp add: image_notebook_def)

lemma tr_not_ts_image: "variables image_notebook ''ts'' \<noteq> Some 0"
  by (simp add: image_notebook_def)

text \<open>
  Claim C6.  Dividing by 255 and min-max scaling change the dataset in place and
  change only its \<open>X\<close>: every name refers to the same object as before, so that
  a second name of the dataset sees the new matrix; no object appears or
  disappears; every object keeps its labels \<open>Y\<close>, its header and its number of
  samples; the objects that the name does not refer to are untouched; and the new
  matrix is the old one mapped row by row, in the same order.  The same holds for
  the data cell of notebook 06 and for the normalisation cells of the poisoning
  notebook as a whole.
\<close>

theorem normalization_changes_only_X:
  "(idiv_255 rnd name nb = Inr nb'
      \<longrightarrow> only_X_changed nb nb' \<and> rows_mapped (map (\<lambda>v. rnd (v / 255))) name nb nb'
        \<and> (\<forall>r. variables nb name \<noteq> Some r \<longrightarrow> objects nb' r = objects nb r)
        \<and> (\<forall>other. variables nb other = variables nb name
              \<longrightarrow> lookup other nb' = lookup name nb'))
   \<and> (fit_transform_X rnd name nb = Inr nb'
      \<longrightarrow> only_X_changed nb nb'
        \<and> (\<exists>nz. nmz nb' = Some nz \<and> rows_mapped (transform_row rnd nz) name nb nb')
        \<and> (\<forall>r. variables nb name \<noteq> Some r \<longrightarrow> objects nb' r = objects nb r))
   \<and> (transform_X rnd name nb = Inr nb'
      \<longrightarrow> only_X_changed nb nb' \<and> nmz nb' = nmz nb
        \<and> (\<exists>nz. nmz nb = Some nz \<and> rows_mapped (transform_row rnd nz) name nb nb')
        \<and> (\<forall>r. variables nb name \<noteq> Some r \<longrightarrow> objects nb' r = objects nb r))
   \<and> (data_cell_06 rnd nb = Inr nb' \<longrightarrow> only_X_changed nb nb')
   \<and> (normalize_cell rnd nb = Inr nb' \<longrightarrow> only_X_changed nb nb')
   \<and> (refit_cell rnd nb = Inr nb' \<longrightarrow> only_X_changed nb nb')"
proof (intro conjI impI)
  assume h: "idiv_255 rnd name nb = Inr nb'"
  from idiv_255_frame [OF h]
  show "only_X_changed nb nb'" "rows_mapped (map (\<lambda>v. rnd (v / 255))) name nb nb'"
    "\<forall>r. variables nb name \<noteq> Some r \<longrightarrow> objects nb' r = objects nb r"
    by simp_all
  from idiv_255_frame [OF h] have "variables nb' = variables nb"
    by (simp add: only_X_changed_def)
  then show "\<forall>other. variables nb other = variables nb name
              \<longrightarrow> lookup other nb' = lookup name nb'"
    by (simp add: lookup_def)
next
  assume h: "fit_transform_X rnd name nb = Inr nb'"
  from fit_transform_X_frame [OF h]
  show "only_X_changed nb nb'"
    "\<exists>nz. nmz nb' = Some nz \<and> rows_mapped (transform_row rnd nz) name nb nb'"
    "\<forall>r. variables nb name \<noteq> Some r \<longrightarrow> objects nb' r = objects nb r"
    by simp_all
next
  assume h: "transform_X rnd name nb = Inr nb'"
  from transform_X_frame [OF h]
  show "only_X_changed nb nb'" "nmz nb' = nmz nb"
    "\<exists>nz. nmz nb = Some nz \<and> rows_mapped (transform_row rnd nz) name nb nb'"
    "\<forall>r. variables nb name \<noteq> Some r \<longrightarrow> objects nb' r = objects nb r"
    by simp_all
next
  assume "data_cell_06 rnd nb = Inr nb'"
  then show "only_X_changed nb nb'" by (rule data_cell_06_frame)
next
  assume "normalize_cell rnd nb = Inr nb'"
  then show "only_X_changed nb nb'" by (rule normalize_cell_frame)
next
  assume "refit_cell rnd nb = Inr nb'"
  then show "only_X_changed nb nb'"
    unfolding refit_cell_def using fit_transform_X_frame by blast
qed

theorem normalization_changes_only_X_witness:
  "idiv_255 exact ''ts'' image_notebook = Inr divided_ts_notebook
   \<and> only_X_changed image_notebook divided_ts_notebook
   \<and> rows_mapped (map (\<lambda>v. exact (v / 255))) ''ts'' image_notebook divided_ts_notebook
   \<and> variables image_notebook ''ts'' \<noteq> Some 0
   \<and> objects divided_ts_notebook 0 = objects image_notebook 0
   \<and> variables image_notebook ''same_ts'' = variables image_notebook ''ts''
   \<and> lookup ''same_ts'' divided_ts_notebook = lookup ''ts'' divided_ts_notebook
   \<and> fit_transform_X exact ''tr'' (blob_notebook\<lparr>nmz := None\<rparr>) = Inr fitted_notebook
   \<and> only_X_changed (blob_notebook\<lparr>nmz := None\<rparr>) fitted_notebook
   \<and> transform_X exact ''ts'' fitted_notebook
       = Inr (fitted_notebook\<lparr>objects :=
           (objects fitted_notebook)(2 \<mapsto> blob_ts\<lparr>X := [[- (1 / 2), 1 / 2]]\<rparr>)\<rparr>)
   \<and> only_X_changed fitted_notebook
        (fitted_notebook\<lparr>objects :=
           (objects fitted_notebook)(2 \<mapsto> blob_ts\<lparr>X := [[- (1 / 2), 1 / 2]]\<rparr>)\<rparr>)
   \<and> data_cell_06 exact image_notebook = Inr divided_notebook
   \<and> only_X_changed image_notebook divided_notebook
   \<and> normalize_cell exact blob_notebook = Inr normalized_notebook
   \<and> only_X_changed blob_notebook normalized_notebook
   \<and> refit_cell exact blob_notebook = Inr refitted_notebook
   \<and> only_X_changed blob_notebook refitted_notebook"
proof -
  note main = normalization_changes_only_X
  note c1 = mp [OF conjunct1 [OF main] idiv_ts_image]
  have c1a: "only_X_changed image_notebook divided_ts_notebook"
    by (rule conjunct1 [OF c1])
  have c1b: "rows_mapped (map (\<lambda>v. exact (v / 255))) ''ts'' image_notebook divided_ts_notebook"
    by (rule conjunct1 [OF conjunct2 [OF c1]])
  have c1c: "\<forall>r. variables image_notebook ''ts'' \<noteq> Some r
                \<longrightarrow> objects divided_ts_notebook r = objects image_notebook r"
    by (rule conjunct1 [OF conjunct2 [OF conjunct2 [OF c1]]])
  have c1d: "\<forall>other. variables image_notebook other = variables image_notebook ''ts''
                \<longrightarrow> lookup other divided_ts_notebook = lookup ''ts'' divided_ts_notebook"
    by (rule conjunct2 [OF conjunct2 [OF conjunct2 [OF c1]]])
  have c1e: "objects divided_ts_notebook 0 = objects image_notebook 0"
    by (rule mp [OF spec [OF c1c] tr_not_ts_image])
  have c1f: "lookup ''same_ts'' divided_ts_notebook = lookup ''ts'' divided_ts_notebook"
    by (rule mp [OF spec [OF c1d] same_name_image])
  have c2: "only_X_changed (blob_notebook\<lparr>nmz := None\<rparr>) fitted_notebook"
    by (rule conjunct1 [OF mp [OF conjunct1 [OF conjunct2 [OF main]] fit_tr_blobs]])
  have c3: "only_X_changed fitted_notebook
        (fitted_notebook\<lparr>objects :=
           (objects fitted_notebook)(2 \<mapsto> blob_ts\<lparr>X := [[- (1 / 2), 1 / 2]]\<rparr>)\<rparr>)"
    by (rule conjunct1 [OF mp [OF conjunct1 [OF conjunct2 [OF conjunct2 [OF main]]]
                                transform_ts_fitted]])
  have c4: "only_X_changed image_notebook divided_notebook"
    by (rule mp [OF conjunct1 [OF conjunct2 [OF conjunct2 [OF conjunct2 [OF main]]]]
                  data_cell_06_image])
  have c5: "only_X_changed blob_notebook normalized_notebook"
    by (rule mp [OF conjunct1 [OF conjunct2 [OF conjunct2 [OF conjunct2 [OF conjunct2 [OF main]]]]]
                  normalize_blobs])
  have c6: "only_X_changed blob_notebook refitted_notebook"
    by (rule mp [OF conjunct2 [OF conjunct2 [OF conjunct2 [OF conjunct2 [OF conjunct2 [OF main]]]]]
                  refit_blobs])
  from idiv_ts_image c1a c1b tr_not_ts_image c1e same_name_image c1f fit_tr_blobs c2
    transform_ts_fitted c3 data_cell_06_image c4 normalize_blobs c5 refit_blobs c6
  show ?thesis by (intro conjI)
qed

subsection \<open>Guarded steps on the filesystem\<close>

lemma fetch_if_absent_present:
  "os_path_exists p w \<Longrightarrow> fetch_if_absent ext file_id p w = Inr w"
  by (simp add: fetch_if_absent_def)

lemma fetch_if_absent_leaves:
  assumes "download_leaves_file ext" "fetch_if_absent ext file_id p w = Inr w1"
  shows "os_path_exists p w1 \<and> cwd w1 = cwd w
         \<and> (\<forall>q. os_path_exists q w \<longrightarrow> os_path_exists q w1)"
proof (cases "os_path_exists p w")
  case True
  with assms(2) show ?thesis by (simp add: fetch_if_absent_def)
next
  case False
  with assms(2) obtain fs' where
    d: "download_gdrive ext file_id (resolve w p) (files w) = Inr fs'" and w1: "w1 = w\<lparr>files := fs'\<rparr>"
    by (auto simp: fetch_if_absent_def call_download_gdrive_def split: sum.splits)
  from assms(1) d have "fs' (resolve w p) \<noteq> None \<and> (\<forall>q. files w q \<noteq> None \<longrightarrow> fs' q \<noteq> None)"
    unfolding download_leaves_file_def by blast
  then show ?thesis by (simp add: w1 os_path_exists_def resolve_def)
qed

lemma fetch_if_absent_again:
  assumes "download_leaves_file ext" "fetch_if_absent ext file_id p w = Inr w1"
  shows "fetch_if_absent ext file_id p w1 = Inr w1"
  using fetch_if_absent_leaves [OF assms] by (simp add: fetch_if_absent_present)

lemma ensure_pretrained_dir_leaves:
  assumes "ensure_pretrained_dir w = Inr w1"
  shows "os_path_exists [''pretrained''] w1"
  using assms
  by (auto simp: ensure_pretrained_dir_def os_mkdir_def Let_def os_path_exists_def resolve_def
      split: if_splits)

lemma load_kwta_weights_again:
  assumes leaves: "download_leaves_file ext" and first: "load_kwta_weights ext w = Inr w1"
  shows "load_kwta_weights ext w1 = Inr w1"
proof -
  from first obtain w0 where
    dir: "ensure_pretrained_dir w = Inr w0"
    and fetch: "fetch_if_absent ext ''1Af_owmMvg1LxjITLE1gFUmPx5idogeTP'' kwta_filepath w0 = Inr w1"
    by (auto simp: load_kwta_weights_def and_then_def split: sum.splits)
  from fetch_if_absent_leaves [OF leaves fetch] ensure_pretrained_dir_leaves [OF dir]
  have "os_path_exists [''pretrained''] w1" by blast
  then have "ensure_pretrained_dir w1 = Inr w1" by (simp add: ensure_pretrained_dir_def)
  with fetch_if_absent_again [OF leaves fetch] show ?thesis
    by (simp add: load_kwta_weights_def)
qed

lemma clone_labs_models: "os_path_exists [''models''] w \<Longrightarrow> clone_labs ext w = Inr w"
  by (simp add: clone_labs_def)

lemma clone_labs_again:
  assumes delivers: "clone_delivers_models ext"
    and holds: "os_path_exists [''unica_mlsec_labs''] w
                \<longrightarrow> os_path_exists [''unica_mlsec_labs'', ''models''] w"
    and first: "clone_labs ext w = Inr w1"
  shows "clone_labs ext w1 = Inr w1"
proof (cases "os_path_exists [''models''] w")
  case True
  with first show ?thesis by (simp add: clone_labs_def)
next
  case False
  show ?thesis
  proof (cases "os_path_exists [''unica_mlsec_labs''] w")
    case True
    with False first have "os_chdir [''unica_mlsec_labs''] w = Inr w1"
      by (simp add: clone_labs_def)
    then have w1: "w1 = w\<lparr>cwd := cwd w @ [''unica_mlsec_labs'']\<rparr>"
      by (auto simp: os_chdir_def Let_def resolve_def split: if_splits)
    from True holds have "os_path_exists [''models''] w1"
      by (simp add: w1 os_path_exists_def resolve_def)
    then show ?thesis by (rule clone_labs_models)
  next
    case absent: False
    let ?w' = "shell_git_clone ext repo_url w"
    from False absent first have "os_chdir [''unica_mlsec_labs''] ?w' = Inr w1"
      by (simp add: clone_labs_def)
    then have w1: "w1 = ?w'\<lparr>cwd := cwd w @ [''unica_mlsec_labs'']\<rparr>"
      by (auto simp: os_chdir_def Let_def resolve_def shell_git_clone_def split: if_splits)
    from absent have "files w (cwd w @ [''unica_mlsec_labs'']) = None"
      by (simp add: os_path_exists_def resolve_def)
    with delivers have
      "git_clone ext repo_url (cwd w) (files w) (cwd w @ [''unica_mlsec_labs'', ''models'']) \<noteq> None"
      unfolding clone_delivers_models_def by blast
    then have "os_path_exists [''models''] w1"
      by (simp add: w1 os_path_exists_def resolve_def shell_git_clone_def)
    then show ?thesis by (rule clone_labs_models)
  qed
qed

lemma clone_stale: "clone_labs example_externals stale_world
     = Inr (stale_world\<lparr>cwd := [''content'', ''unica_mlsec_labs'']\<rparr>)"
  by (simp add: clone_labs_def os_path_exists_def resolve_def os_chdir_def Let_def is_directory_def
      stale_world_def)

lemma clone_stale_again:
  "clone_labs example_externals (stale_world\<lparr>cwd := [''content'', ''unica_mlsec_labs'']\<rparr>)
     = Inr nested_world"
  by (simp add: clone_labs_def os_path_exists_def resolve_def os_chdir_def Let_def is_directory_def
      shell_git_clone_def example_externals_def stale_world_def nested_world_def)

lemma example_download_leaves_file: "download_leaves_file example_externals"
  by (auto simp: download_leaves_file_def example_externals_def split: if_splits)

lemma example_clone_delivers_models: "clone_delivers_models example_externals"
  by (simp add: clone_delivers_models_def example_externals_def)

lemma load_kwta_fresh: "load_kwta_weights example_externals fresh_world = Inr loaded_world"
  by (simp add: load_kwta_weights_def ensure_pretrained_dir_def os_path_exists_def resolve_def
      os_mkdir_def Let_def is_directory_def fetch_if_absent_def call_download_gdrive_def
      kwta_filepath_def os_path_join_def example_externals_def fresh_world_def loaded_world_def)

lemma clone_fresh: "clone_labs example_externals fresh_world = Inr cloned_world"
  by (simp add: clone_labs_def os_path_exists_def resolve_def os_chdir_def Let_def is_directory_def
      shell_git_clone_def example_externals_def fresh_world_def cloned_world_def)

lemma fresh_no_labs:
  "os_path_exists [''unica_mlsec_labs''] fresh_world
   \<longrightarrow> os_path_exists [''unica_mlsec_labs'', ''models''] fresh_world"
  by (simp add: os_path_exists_def resolve_def fresh_world_def)

lemma loaded_has_pretrained: "os_path_exists [''pretrained''] loaded_world"
  by (simp add: os_path_exists_def resolve_def loaded_world_def)

lemma cloned_has_models: "os_path_exists [''models''] cloned_world"
  by (simp add: os_path_exists_def resolve_def cloned_world_def)

lemma load_distilled_loaded:
  "load_distilled_weights example_externals loaded_world = Inr distilled_world"
  by (simp add: load_distilled_weights_def os_path_exists_def resolve_def Let_def
      is_directory_def fetch_if_absent_def call_download_gdrive_def
      os_path_join_def example_externals_def loaded_world_def distilled_world_def)

lemma load_teacher_distilled:
  "load_teacher_weights example_externals distilled_world = Inr teacher_world"
  by (simp add: load_teacher_weights_def os_path_exists_def resolve_def Let_def
      is_directory_def fetch_if_absent_def call_download_gdrive_def
      os_path_join_def example_externals_def teacher_world_def distilled_world_def)

lemma loaded_has_kwta: "os_path_exists kwta_filepath loaded_world"
  by (simp add: os_path_exists_def resolve_def loaded_world_def kwta_filepath_def
      os_path_join_def)

lemma stale_has_labs: "os_path_exists [''unica_mlsec_labs''] stale_world"
  by (simp add: os_path_exists_def resolve_def stale_world_def)

text \<open>
  Claim C7, as the code has it.  Each guard skips its action when the path exists:
  the directory \<^verbatim>\<open>pretrained\<close> is not created again, a weight file is not
  downloaded again, and nothing is cloned when \<^verbatim>\<open>models\<close> or
  \<^verbatim>\<open>unica_mlsec_labs\<close> exists in the working directory.  A weight-loading
  step that completed returns the world unchanged when run again, if a download
  leaves its file.  The clone step that completed returns the world unchanged when
  run again, if the clone delivers \<^verbatim>\<open>models\<close> and a
  \<^verbatim>\<open>unica_mlsec_labs\<close> directory that was already there holds \<^verbatim>\<open>models\<close>.
\<close>

theorem guarded_steps_idempotent:
  "(os_path_exists [''pretrained''] w \<longrightarrow> ensure_pretrained_dir w = Inr w)
   \<and> (os_path_exists p w \<longrightarrow> fetch_if_absent ext file_id p w = Inr w)
   \<and> (os_path_exists [''models''] w \<longrightarrow> clone_labs ext w = Inr w)
   \<and> (os_path_exists [''unica_mlsec_labs''] w \<and> clone_labs ext w = Inr w1
        \<longrightarrow> files w1 = files w)
   \<and> (download_leaves_file ext \<and> load_kwta_weights ext w = Inr w1
        \<longrightarrow> load_kwta_weights ext w1 = Inr w1)
   \<and> (download_leaves_file ext \<and> load_distilled_weights ext w = Inr w1
        \<longrightarrow> load_distilled_weights ext w1 = Inr w1)
   \<and> (download_leaves_file ext \<and> load_teacher_weights ext w = Inr w1
        \<longrightarrow> load_teacher_weights ext w1 = Inr w1)
   \<and> (clone_delivers_models ext
          \<and> (os_path_exists [''unica_mlsec_labs''] w
               \<longrightarrow> os_path_exists [''unica_mlsec_labs'', ''models''] w)
          \<and> clone_labs ext w = Inr w1
        \<longrightarrow> clone_labs ext w1 = Inr w1)"
proof (intro conjI impI)
  assume "os_path_exists [''pretrained''] w"
  then show "ensure_pretrained_dir w = Inr w" by (simp add: ensure_pretrained_dir_def)
next
  assume "os_path_exists p w"
  then show "fetch_if_absent ext file_id p w = Inr w" by (rule fetch_if_absent_present)
next
  assume "os_path_exists [''models''] w"
  then show "clone_labs ext w = Inr w" by (rule clone_labs_models)
next
  assume "os_path_exists [''unica_mlsec_labs''] w \<and> clone_labs ext w = Inr w1"
  then show "files w1 = files w"
    by (auto simp: clone_labs_def os_chdir_def Let_def split: if_splits)
next
  assume "download_leaves_file ext \<and> load_kwta_weights ext w = Inr w1"
  then show "load_kwta_weights ext w1 = Inr w1"
    by (elim conjE) (rule load_kwta_weights_again)
next
  assume "download_leaves_file ext \<and> load_distilled_weights ext w = Inr w1"
  then show "load_distilled_weights ext w1 = Inr w1"
    unfolding load_distilled_weights_def by (elim conjE) (rule fetch_if_absent_again)
next
  assume "download_leaves_file ext \<and> load_teacher_weights ext w = Inr w1"
  then show "load_teacher_weights ext w1 = Inr w1"
    unfolding load_teacher_weights_def by (elim conjE) (rule fetch_if_absent_again)
next
  assume "clone_delivers_models ext
    \<and> (os_path_exists [''unica_mlsec_labs''] w
         \<longrightarrow> os_path_exists [''unica_mlsec_labs'', ''models''] w)
    \<and> clone_labs ext w = Inr w1"
  then show "clone_labs ext w1 = Inr w1"
    by (elim conjE) (rule clone_labs_again)
qed

theorem guarded_steps_idempotent_witness:
  "os_path_exists [''pretrained''] loaded_world
   \<and> ensure_pretrained_dir loaded_world = Inr loaded_world
   \<and> os_path_exists kwta_filepath loaded_world
   \<and> fetch_if_absent example_externals ''1Af_owmMvg1LxjITLE1gFUmPx5idogeTP'' kwta_filepath
        loaded_world = Inr loaded_world
   \<and> os_path_exists [''models''] cloned_world
   \<and> clone_labs example_externals cloned_world = Inr cloned_world
   \<and> os_path_exists [''unica_mlsec_labs''] stale_world
   \<and> clone_labs example_externals stale_world
       = Inr (stale_world\<lparr>cwd := [''content'', ''unica_mlsec_labs'']\<rparr>)
   \<and> files (stale_world\<lparr>cwd := [''content'', ''unica_mlsec_labs'']\<rparr>) = files stale_world
   \<and> download_leaves_file example_externals
   \<and> load_kwta_weights example_externals fresh_world = Inr loaded_world
   \<and> load_kwta_weights example_externals loaded_world = Inr loaded_world
   \<and> load_distilled_weights example_externals loaded_world = Inr distilled_world
   \<and> load_distilled_weights example_externals distilled_world = Inr distilled_world
   \<and> load_teacher_weights example_externals distilled_world = Inr teacher_world
   \<and> load_teacher_weights example_externals teacher_world = Inr teacher_world
   \<and> clone_delivers_models example_externals
   \<and> clone_labs example_externals fresh_world = Inr cloned_world"
proof -
  note main = guarded_steps_idempotent
  note leaves = example_download_leaves_file
  have c1: "ensure_pretrained_dir loaded_world = Inr loaded_world"
    by (rule mp [OF conjunct1 [OF main] loaded_has_pretrained])
  have c2: "fetch_if_absent example_externals ''1Af_owmMvg1LxjITLE1gFUmPx5idogeTP'' kwta_filepath
        loaded_world = Inr loaded_world"
    by (rule mp [OF conjunct1 [OF conjunct2 [OF main]] loaded_has_kwta])
  have c3: "clone_labs example_externals cloned_world = Inr cloned_world"
    by (rule mp [OF conjunct1 [OF conjunct2 [OF conjunct2 [OF main]]] cloned_has_models])
  have c4: "files (stale_world\<lparr>cwd := [''content'', ''unica_mlsec_labs'']\<rparr>) = files stale_world"
    by (rule mp [OF conjunct1 [OF conjunct2 [OF conjunct2 [OF conjunct2 [OF main]]]]
                  conjI [OF stale_has_labs clone_stale]])
  have c5: "load_kwta_weights example_externals loaded_world = Inr loaded_world"
    by (rule mp [OF conjunct1 [OF conjunct2 [OF conjunct2 [OF conjunct2 [OF conjunct2 [OF main]]]]]
                  conjI [OF leaves load_kwta_fresh]])
  have c6: "load_distilled_weights example_externals distilled_world = Inr distilled_world"
    by (rule mp [OF conjunct1 [OF conjunct2 [OF conjunct2 [OF conjunct2 [OF conjunct2
                  [OF conjunct2 [OF main]]]]]] conjI [OF leaves load_distilled_loaded]])
  have c7: "load_teacher_weights example_externals teacher_world = Inr teacher_world"
    by (rule mp [OF conjunct1 [OF conjunct2 [OF conjunct2 [OF conjunct2 [OF conjunct2
                  [OF conjunct2 [OF conjunct2 [OF main]]]]]]]
                  conjI [OF leaves load_teacher_distilled]])
  have c8: "clone_labs example_externals cloned_world = Inr cloned_world"
    by (rule mp [OF conjunct2 [OF conjunct2 [OF conjunct2 [OF conjunct2 [OF conjunct2
                  [OF conjunct2 [OF conjunct2 [OF main]]]]]]]
                  conjI [OF example_clone_delivers_models conjI [OF fresh_no_labs clone_fresh]]])
  from loaded_has_pretrained c1 loaded_has_kwta c2 cloned_has_models c3 c8 stale_has_labs
    clone_stale c4 leaves load_kwta_fresh c5 load_distilled_loaded c6 load_teacher_distilled c7
    example_clone_delivers_models clone_fresh
  show ?thesis by (intro conjI)
qed

text \<open>
  The claim C7 as the spec states it fails for the clone step.  The step changes
  the working directory, and its guards are relative to it: started where a
  \<^verbatim>\<open>unica_mlsec_labs\<close> directory without \<^verbatim>\<open>models\<close> exists, the first run
  clones nothing and enters the directory; the second run finds neither path there
  and clones the repository inside it.
\<close>

theorem second_clone_inside_first:
  "clone_labs example_externals stale_world
     = Inr (stale_world\<lparr>cwd := [''content'', ''unica_mlsec_labs'']\<rparr>)
   \<and> files (stale_world\<lparr>cwd := [''content'', ''unica_mlsec_labs'']\<rparr>)
        [''content'', ''unica_mlsec_labs'', ''unica_mlsec_labs''] = None
   \<and> clone_labs example_externals (stale_world\<lparr>cwd := [''content'', ''unica_mlsec_labs'']\<rparr>)
     = Inr nested_world
   \<and> files nested_world [''content'', ''unica_mlsec_labs'', ''unica_mlsec_labs''] = Some Dir"
proof (intro conjI)
  show "files (stale_world\<lparr>cwd := [''content'', ''unica_mlsec_labs'']\<rparr>)
        [''content'', ''unica_mlsec_labs'', ''unica_mlsec_labs''] = None"
    by (simp add: stale_world_def)
  show "files nested_world [''content'', ''unica_mlsec_labs'', ''unica_mlsec_labs''] = Some Dir"
    by (simp add: nested_world_def)
qed (rule clone_stale clone_stale_again)+

end
